theory Spec2Isabelle
  imports Complex_Main
begin

section \<open>Flight-simulation configuration of tools/simulate.py\<close>

text \<open>
  The script is a module of constants, three builder functions and a driver.  Python
  floats are rendered twice.  A constant of the module is the \<^typ>\<open>real\<close> its
  literal denotes, and a computation on these constants is exact; the rounding this
  leaves out is far below every tolerance stated of them.  The grain density as a
  function of arbitrary operands is rendered in the machine format itself, with its
  rounding, overflow and underflow.  Python integers are \<^typ>\<open>int\<close>.  A raised
  exception is the \<open>Inl\<close> side of a sum.
\<close>

subsection \<open>Exceptions\<close>

text \<open>
  Python's hierarchy has \<open>BaseException\<close> at the root; \<open>Exception\<close> is one of its
  subclasses, and \<open>KeyboardInterrupt\<close> and \<open>SystemExit\<close> sit beside it.  The
  constructor \<open>Exception\<close> stands for an instance of \<open>Exception\<close> or of any subclass
  not singled out here, carrying the text that \<open>str\<close> yields; \<open>ZeroDivisionError\<close> and
  \<open>OverflowError\<close> are two such subclasses.
\<close>

datatype py_exception =
    ZeroDivisionError
  | OverflowError string
  | Exception string
  | KeyboardInterrupt
  | SystemExit

fun isinstance_Exception :: "py_exception \<Rightarrow> bool" where
  "isinstance_Exception ZeroDivisionError = True"
| "isinstance_Exception (OverflowError msg) = True"
| "isinstance_Exception (Exception msg) = True"
| "isinstance_Exception KeyboardInterrupt = False"
| "isinstance_Exception SystemExit = False"

fun str :: "py_exception \<Rightarrow> string" where
  "str ZeroDivisionError = ''float division by zero''"
| "str (OverflowError msg) = msg"
| "str (Exception msg) = msg"
| "str KeyboardInterrupt = ''''"
| "str SystemExit = ''''"

subsection \<open>Module constants\<close>

definition LAUNCH_LATITUDE :: real where
  "LAUNCH_LATITUDE = 35.5"

definition LAUNCH_LONGITUDE :: real where
  "LAUNCH_LONGITUDE = - 102.3"

definition LAUNCH_ELEVATION_M :: real where
  "LAUNCH_ELEVATION_M = 971.1"

definition LAUNCH_DATETIME_UTC :: "int \<times> int \<times> int \<times> int" where
  "LAUNCH_DATETIME_UTC = (2025, 10, 12, 18)"

definition THRUST_CURVE :: "(real \<times> real) list" where
  "THRUST_CURVE =
    [(0.0, 0.0),
     (0.05, 1079.788),
     (0.1, 1088.74),
     (0.15, 1097.568),
     (0.2, 1106.256),
     (0.25, 1114.817),
     (0.3, 1123.25),
     (0.35, 1131.537),
     (0.4, 1139.693),
     (0.45, 1147.717),
     (0.6, 1170.926),
     (0.75, 1192.838),
     (0.9, 1213.417),
     (1.05, 1232.629),
     (1.2, 1250.441),
     (1.35, 1266.824),
     (1.5, 1281.753),
     (1.65, 1295.201),
     (1.8, 1307.148),
     (1.95, 1317.574),
     (2.1, 1326.462),
     (2.25, 1333.799),
     (2.4, 1339.572),
     (2.55, 1343.772),
     (2.7, 1346.392),
     (2.85, 1347.429),
     (3.0, 1346.88),
     (3.15, 1344.745),
     (3.3, 1341.029),
     (3.45, 1335.738),
     (3.6, 1328.878),
     (3.75, 1320.462),
     (3.9, 1310.502),
     (4.05, 1299.015),
     (4.2, 1286.018),
     (4.35, 1271.533),
     (4.5, 1255.583),
     (4.53, 0.0)]"

definition MOTOR_DRY_MASS :: real where
  "MOTOR_DRY_MASS = 2.871"

definition PROP_MASS :: real where
  "PROP_MASS = 3.019"

definition MOTOR_DRY_INERTIA :: "real \<times> real \<times> real" where
  "MOTOR_DRY_INERTIA = (0.0697, 0.0697, 0.0034)"

definition GRAIN_COUNT :: int where
  "GRAIN_COUNT = 3"

definition GRAIN_OUTER_RADIUS :: real where
  "GRAIN_OUTER_RADIUS = 0.04"

definition GRAIN_INNER_RADIUS :: real where
  "GRAIN_INNER_RADIUS = 0.01"

definition GRAIN_LENGTH :: real where
  "GRAIN_LENGTH = 0.12"

text \<open>
  The density is computed once, when the module is loaded, by
  \<^verbatim>\<open>PROP_MASS / (GRAIN_COUNT * pi * (GRAIN_OUTER_RADIUS**2 - GRAIN_INNER_RADIUS**2) * GRAIN_LENGTH)\<close>.
  \<open>derive_grain_density\<close> is that expression in exact arithmetic, as a function of the
  five constants it reads; it is used at the module's constants.  A division by zero
  raises \<open>ZeroDivisionError\<close>; nothing else in the expression checks its operands.
\<close>

definition derive_grain_density ::
  "real \<Rightarrow> int \<Rightarrow> real \<Rightarrow> real \<Rightarrow> real \<Rightarrow> py_exception + real" where
  "derive_grain_density prop_mass grain_count outer_radius inner_radius grain_length =
     (let volume = real_of_int grain_count * pi * (outer_radius ^ 2 - inner_radius ^ 2)
                     * grain_length
      in if volume = 0 then Inl ZeroDivisionError else Inr (prop_mass / volume))"

definition GRAIN_DENSITY :: real where
  "GRAIN_DENSITY =
     PROP_MASS /
       (real_of_int GRAIN_COUNT * pi * (GRAIN_OUTER_RADIUS ^ 2 - GRAIN_INNER_RADIUS ^ 2)
          * GRAIN_LENGTH)"

definition GRAIN_SEPARATION :: real where
  "GRAIN_SEPARATION = 0.005"

definition MOTOR_CG_FROM_NOZZLE :: real where
  "MOTOR_CG_FROM_NOZZLE = 0.267"

definition NOZZLE_RADIUS :: real where
  "NOZZLE_RADIUS = 0.02"

definition THROAT_RADIUS :: real where
  "THROAT_RADIUS = 0.011"

definition BURN_TIME :: real where
  "BURN_TIME = 4.53"

definition ROCKET_RADIUS :: real where
  "ROCKET_RADIUS = 0.051054"

definition ROCKET_LENGTH :: real where
  "ROCKET_LENGTH = 2.5"

definition ROCKET_DRY_MASS :: real where
  "ROCKET_DRY_MASS = 10.984"

definition ROCKET_DRY_INERTIA :: "real \<times> real \<times> real" where
  "ROCKET_DRY_INERTIA = (5.72, 5.72, 0.015)"

definition ROCKET_DRY_CG_FROM_TAIL :: real where
  "ROCKET_DRY_CG_FROM_TAIL = 0.998"

definition FIN_ROOT_CHORD :: real where
  "FIN_ROOT_CHORD = 0.3334"

definition FIN_TIP_CHORD :: real where
  "FIN_TIP_CHORD = 0.0510"

definition FIN_SPAN :: real where
  "FIN_SPAN = 0.1270"

definition FIN_ROOT_LEADING_EDGE_FROM_TAIL :: real where
  "FIN_ROOT_LEADING_EDGE_FROM_TAIL = 0.38"

definition REEFED_CD :: real where
  "REEFED_CD = 1.2"

definition REEFED_DIAMETER :: real where
  "REEFED_DIAMETER = 1.2192"

definition REEFED_CD_S :: real where
  "REEFED_CD_S = REEFED_CD * pi * (REEFED_DIAMETER / 2) ^ 2"

definition MAIN_CD :: real where
  "MAIN_CD = 1.5"

definition MAIN_DIAMETER :: real where
  "MAIN_DIAMETER = 2.7432"

definition MAIN_CD_S :: real where
  "MAIN_CD_S = MAIN_CD * pi * (MAIN_DIAMETER / 2) ^ 2"

text \<open>
  The two drag areas are written out twice in the module, with the same shape
  \<^verbatim>\<open>CD * pi * (DIAMETER / 2) ** 2\<close>.  \<open>derive_drag_area\<close> is that shape as a function
  of the coefficient and the diameter.
\<close>

definition derive_drag_area :: "real \<Rightarrow> real \<Rightarrow> real" where
  "derive_drag_area cd diameter = cd * pi * (diameter / 2) ^ 2"

subsection \<open>Float arithmetic\<close>

text \<open>
  The module's constants are fixed decimals, and what is said of them below is said of
  the real numbers they denote.  Line 68 as a function of arbitrary operands is
  another matter: there the machine format decides what is raised and what is
  returned.  This part renders Python's \<open>float\<close>, the IEEE binary64 format, with its
  rounding to nearest (ties to even), its gradual underflow and its overflow.  The two
  zeros of the format are not told apart; nothing in line 68 can observe their sign.

  \<open>nearest x\<close> is the number of the format's grid nearest to \<open>x\<close>: in the binade of
  \<open>x\<close>, and not below the smallest normal binade, the grid has step \<open>ulp x\<close>.
  \<open>exponent x\<close> is the exponent of that binade, found by going down from \<open>1024\<close> to
  \<open>- 1022\<close>; a number from \<open>2 ^ 1024\<close> on is beyond the largest finite float whatever
  its grid, so the search need not start higher.
\<close>

definition round_half_even :: "real \<Rightarrow> int" where
  "round_half_even r =
     (let f = \<lfloor>r\<rfloor>; d = r - of_int f
      in if d < 1 / 2 then f else if 1 / 2 < d then f + 1 else if even f then f else f + 1)"

definition pow2 :: "int \<Rightarrow> real" where
  "pow2 e = (if 0 \<le> e then 2 ^ nat e else 1 / 2 ^ nat (- e))"

fun binade :: "nat \<Rightarrow> real \<Rightarrow> int" where
  "binade 0 a = - 1022"
| "binade (Suc n) a = (if pow2 (int n - 1021) \<le> a then int n - 1021 else binade n a)"

definition exponent :: "real \<Rightarrow> int" where
  "exponent x = binade 2046 \<bar>x\<bar>"

definition ulp :: "real \<Rightarrow> real" where
  "ulp x = pow2 (exponent x - 52)"

definition nearest :: "real \<Rightarrow> real" where
  "nearest x = sgn x * of_int (round_half_even (\<bar>x\<bar> / ulp x)) * ulp x"















text \<open>
  Ranges of magnitude, for stating where no intermediate result leaves the normal
  range of the format: \<open>in_range a b x\<close> places \<open>\<bar>x\<bar>\<close> between \<open>2\<close> to the \<open>-a\<close> and
  \<open>2\<close> to the \<open>b\<close>; a moderate operand lies between \<open>2\<close> to the \<open>-200\<close> and \<open>2\<close> to
  the \<open>200\<close>; two radii are apart when the larger is moderate, the smaller is zero or
  moderate, and they differ by more than the rounding of the squares can hide.
\<close>

definition in_range :: "nat \<Rightarrow> nat \<Rightarrow> real \<Rightarrow> bool" where
  "in_range a b x \<longleftrightarrow> 1 / 2 ^ a \<le> \<bar>x\<bar> \<and> \<bar>x\<bar> \<le> 2 ^ b"




subsection \<open>The environment\<close>

text \<open>
  \<open>Environment\<close>, \<open>SolidMotor\<close>, \<open>Rocket\<close> and \<open>Flight\<close> come from the RocketPy
  library, which the script imports and which is no part of this repository.  The
  script only constructs these objects and calls their setters, so each object is a
  record of what the script hands over, and each library call is the update below.
\<close>

datatype atmospheric_model = Forecast string | standard_atmosphere

record Environment =
  latitude :: real
  longitude :: real
  elevation :: real
  date :: "(int \<times> int \<times> int \<times> int) option"
  atmospheric_model_type :: "atmospheric_model option"

text \<open>
  What the process can observe of a run of \<open>build_environment\<close>: how many forecast
  downloads were started, and the lines written to standard output.
\<close>

record world =
  forecast_attempts :: nat
  stdout :: "string list"

text \<open>
  The forecast comes over the network.  A provider tells, for the download started
  after \<open>k\<close> earlier ones, whether the data arrives (\<open>None\<close>) or which exception the
  call raises.
\<close>

type_synonym provider = "nat \<Rightarrow> py_exception option"

definition always_fails :: "py_exception \<Rightarrow> provider" where
  "always_fails exc = (\<lambda>k. Some exc)"

definition always_succeeds :: provider where
  "always_succeeds = (\<lambda>k. None)"

definition Environment_init :: "real \<Rightarrow> real \<Rightarrow> real \<Rightarrow> Environment" where
  \<comment> \<open>Modelled from the spec: the library's constructor; an EnvironmentDescriptor holds
     the location, the date and the atmospheric mode, the last two not yet set.\<close>
  "Environment_init lat lon elev =
     \<lparr>latitude = lat, longitude = lon, elevation = elev, date = None,
      atmospheric_model_type = None\<rparr>"

definition set_date :: "Environment \<Rightarrow> int \<times> int \<times> int \<times> int \<Rightarrow> Environment" where
  \<comment> \<open>Modelled from the spec: the library's setter of the launch date.\<close>
  "set_date env d = env\<lparr>date := Some d\<rparr>"

definition set_atmospheric_model ::
  "provider \<Rightarrow> atmospheric_model \<Rightarrow> Environment \<Rightarrow> world
     \<Rightarrow> (py_exception + Environment) \<times> world" where
  \<comment> \<open>Modelled from the spec: the library's setter of the atmospheric mode.  The
     standard atmosphere is deterministic and needs no data; a forecast starts one
     download, and either records the mode or raises what the provider raises, leaving
     the descriptor as it was.\<close>
  "set_atmospheric_model prov m env w =
     (case m of
        standard_atmosphere \<Rightarrow>
          (Inr (env\<lparr>atmospheric_model_type := Some standard_atmosphere\<rparr>), w)
      | Forecast file \<Rightarrow>
          (let w' = w\<lparr>forecast_attempts := Suc (forecast_attempts w)\<rparr>
           in case prov (forecast_attempts w) of
                None \<Rightarrow> (Inr (env\<lparr>atmospheric_model_type := Some (Forecast file)\<rparr>), w')
              | Some exc \<Rightarrow> (Inl exc, w')))"

definition print :: "string \<Rightarrow> world \<Rightarrow> world" where
  "print line w = w\<lparr>stdout := stdout w @ [line]\<rparr>"

definition warning :: "py_exception \<Rightarrow> string" where
  "warning exc =
     ''Warning: could not download forecast data ('' @ str exc @ ''). Using ISA instead.''"

text \<open>
  \<open>build_environment\<close>: the \<open>try\<close> block holds the forecast call alone; the handler
  is \<open>except Exception\<close>, so an exception outside that class leaves the function.
\<close>

definition build_environment :: "provider \<Rightarrow> world \<Rightarrow> (py_exception + Environment) \<times> world" where
  "build_environment prov w =
     (let env = Environment_init LAUNCH_LATITUDE LAUNCH_LONGITUDE LAUNCH_ELEVATION_M;
          env = set_date env LAUNCH_DATETIME_UTC
      in case set_atmospheric_model prov (Forecast ''GFS'') env w of
           (Inr env', w') \<Rightarrow> (Inr env', w')
         | (Inl exc, w') \<Rightarrow>
             if isinstance_Exception exc
             then set_atmospheric_model prov standard_atmosphere env (print (warning exc) w')
             else (Inl exc, w'))"

subsection \<open>The motor\<close>

record SolidMotor =
  thrust_source :: "(real \<times> real) list"
  dry_mass :: real
  dry_inertia :: "real \<times> real \<times> real"
  nozzle_radius :: real
  grain_number :: int
  grain_density :: real
  grain_outer_radius :: real
  grain_initial_inner_radius :: real
  grain_initial_height :: real
  grain_separation :: real
  grains_center_of_mass_position :: real
  center_of_dry_mass_position :: real
  nozzle_position :: real
  burn_time :: real
  throat_radius :: real

definition build_motor :: SolidMotor where
  "build_motor =
     \<lparr>thrust_source = THRUST_CURVE,
      dry_mass = MOTOR_DRY_MASS,
      dry_inertia = MOTOR_DRY_INERTIA,
      nozzle_radius = NOZZLE_RADIUS,
      grain_number = GRAIN_COUNT,
      grain_density = GRAIN_DENSITY,
      grain_outer_radius = GRAIN_OUTER_RADIUS,
      grain_initial_inner_radius = GRAIN_INNER_RADIUS,
      grain_initial_height = GRAIN_LENGTH,
      grain_separation = GRAIN_SEPARATION,
      grains_center_of_mass_position = MOTOR_CG_FROM_NOZZLE,
      center_of_dry_mass_position = MOTOR_CG_FROM_NOZZLE,
      nozzle_position = 0.0,
      burn_time = BURN_TIME,
      throat_radius = THROAT_RADIUS\<rparr>"

subsection \<open>The rocket\<close>

datatype trigger = apogee | altitude real

record Parachute =
  name :: string
  cd_s :: real
  trigger :: trigger
  sampling_rate :: int
  lag :: real
  noise :: "real \<times> real \<times> real"

text \<open>
  What can be attached, with the keyword arguments of the call in the order the script
  writes them: the motor and its position; the nose cone's length, kind, position and
  name; the fin set's count, root chord, tip chord, span, position, cant angle and
  name; a parachute.
\<close>

datatype component =
    Motor SolidMotor real
  | Nose real string real string
  | TrapezoidalFins int real real real real real string
  | Chute Parachute

record Rocket =
  radius :: real
  mass :: real
  inertia :: "real \<times> real \<times> real"
  power_off_drag :: real
  power_on_drag :: real
  center_of_mass_without_motor :: real
  coordinate_system_orientation :: string
  components :: "component list"

definition Rocket_init ::
  "real \<Rightarrow> real \<Rightarrow> real \<times> real \<times> real \<Rightarrow> real \<Rightarrow> real \<Rightarrow> real \<Rightarrow> string \<Rightarrow> Rocket" where
  \<comment> \<open>Modelled from the spec: the library's constructor; the base airframe descriptor,
     with nothing attached yet.\<close>
  "Rocket_init r m i off_drag on_drag cm orientation =
     \<lparr>radius = r, mass = m, inertia = i, power_off_drag = off_drag,
      power_on_drag = on_drag, center_of_mass_without_motor = cm,
      coordinate_system_orientation = orientation, components = []\<rparr>"

definition attach :: "component \<Rightarrow> Rocket \<Rightarrow> Rocket" where
  \<comment> \<open>Modelled from the spec: each attachment is a pure append to the rocket's ordered
     list; the four \<open>add_\<close> calls of the library differ in what they append.\<close>
  "attach c rocket = rocket\<lparr>components := components rocket @ [c]\<rparr>"

definition add_motor :: "SolidMotor \<Rightarrow> real \<Rightarrow> Rocket \<Rightarrow> Rocket" where
  "add_motor motor pos = attach (Motor motor pos)"

definition add_nose :: "real \<Rightarrow> string \<Rightarrow> real \<Rightarrow> string \<Rightarrow> Rocket \<Rightarrow> Rocket" where
  "add_nose len knd pos nm = attach (Nose len knd pos nm)"

definition add_trapezoidal_fins ::
  "int \<Rightarrow> real \<Rightarrow> real \<Rightarrow> real \<Rightarrow> real \<Rightarrow> real \<Rightarrow> string \<Rightarrow> Rocket \<Rightarrow> Rocket" where
  "add_trapezoidal_fins k root_c tip_c sp pos cant nm =
     attach (TrapezoidalFins k root_c tip_c sp pos cant nm)"

definition add_parachute ::
  "string \<Rightarrow> real \<Rightarrow> trigger \<Rightarrow> int \<Rightarrow> real \<Rightarrow> real \<times> real \<times> real \<Rightarrow> Rocket \<Rightarrow> Rocket" where
  "add_parachute nm area trg rate lg nz =
     attach (Chute \<lparr>name = nm, cd_s = area, trigger = trg, sampling_rate = rate,
                     lag = lg, noise = nz\<rparr>)"

definition build_rocket :: "SolidMotor \<Rightarrow> Rocket" where
  "build_rocket motor =
     (let rocket = Rocket_init ROCKET_RADIUS ROCKET_DRY_MASS ROCKET_DRY_INERTIA 0.6 0.5
                     ROCKET_DRY_CG_FROM_TAIL ''tail_to_nose'';
          rocket = add_motor motor 0.0 rocket;
          rocket = add_nose 0.4953 ''ogive'' ROCKET_LENGTH ''Fiberglass Nose'' rocket;
          rocket = add_trapezoidal_fins 3 FIN_ROOT_CHORD FIN_TIP_CHORD FIN_SPAN
                     FIN_ROOT_LEADING_EDGE_FROM_TAIL 0.0 ''Aluminum Fins'' rocket;
          rocket = add_parachute ''reefed'' REEFED_CD_S apogee 105 1.5 (0, 8.3, 0.5) rocket;
          rocket = add_parachute ''main'' MAIN_CD_S (altitude 305.0) 105 1.5 (0, 8.3, 0.5)
                     rocket
      in rocket)"

text \<open>The recovery devices of a rocket, in the order of their attachment.\<close>

fun parachutes_of :: "component list \<Rightarrow> Parachute list" where
  "parachutes_of [] = []"
| "parachutes_of (Chute p # cs) = p # parachutes_of cs"
| "parachutes_of (c # cs) = parachutes_of cs"

section \<open>Properties\<close>

subsection \<open>Bounds on \<open>pi\<close>\<close>

text \<open>
  The sine is positive just below \<open>pi\<close> and negative just above it; its Maclaurin
  polynomial of degree 15, with the remainder bound, decides the sign at \<open>3.14\<close> and
  at \<open>3.1418\<close>.
\<close>

lemma sin_poly_16:
  "(\<Sum>m<16. sin_coeff m * x ^ m) =
     x - x^3/6 + x^5/120 - x^7/5040 + x^9/362880 - x^11/39916800
       + x^13/6227020800 - x^15/1307674368000" for x :: real
  by (simp add: lessThan_nat_numeral sin_coeff_def fact_numeral lessThan_Suc)

lemma sin_below_pi: "0 < sin (157/50::real)"
proof -
  have b: "\<bar>sin (157/50::real) - (\<Sum>m<16. sin_coeff m * (157/50) ^ m)\<bar> \<le> inverse (fact 16) * \<bar>157/50\<bar> ^ 16"
    by (rule Maclaurin_sin_bound)
  have p: "(\<Sum>m<16. sin_coeff m * (157/50::real) ^ m) - inverse (fact 16) * \<bar>157/50\<bar> ^ 16 > 0"
    unfolding sin_poly_16 by (simp add: fact_numeral power_divide)
  from b p show ?thesis by linarith
qed

lemma sin_above_pi: "sin (15709/5000::real) < 0"
proof -
  have b: "\<bar>sin (15709/5000::real) - (\<Sum>m<16. sin_coeff m * (15709/5000) ^ m)\<bar> \<le> inverse (fact 16) * \<bar>15709/5000\<bar> ^ 16"
    by (rule Maclaurin_sin_bound)
  have p: "(\<Sum>m<16. sin_coeff m * (15709/5000::real) ^ m) + inverse (fact 16) * \<bar>15709/5000\<bar> ^ 16 < 0"
    unfolding sin_poly_16 by (simp add: fact_numeral power_divide)
  from b p show ?thesis by linarith
qed

lemma pi_gt_314: "157/50 < pi"
proof (rule ccontr)
  assume "\<not> 157/50 < pi"
  then have le: "pi \<le> 157/50" by simp
  have lt: "(157/50::real) < 2 * pi" using pi_ge_two by linarith
  have "sin (157/50::real) \<le> 0"
  proof (cases "pi = 157/50")
    case True
    show ?thesis unfolding True [symmetric] by simp
  next
    case False
    with le have "pi < 157/50" by simp
    from sin_lt_zero [OF this lt] show ?thesis by simp
  qed
  with sin_below_pi show False by simp
qed

lemma pi_lt_31418: "pi < 15709/5000"
proof (rule ccontr)
  assume "\<not> pi < 15709/5000"
  then have "15709/5000 \<le> pi" by simp
  then have "0 \<le> sin (15709/5000::real)"
    using sin_ge_zero [of "15709/5000"] by simp
  with sin_above_pi show False by simp
qed

subsection \<open>The grain density of the module\<close>

lemma grain_volume:
  "real_of_int GRAIN_COUNT * pi * (GRAIN_OUTER_RADIUS ^ 2 - GRAIN_INNER_RADIUS ^ 2) * GRAIN_LENGTH
     = 27 / 50000 * pi"
  by (simp add: GRAIN_COUNT_def GRAIN_OUTER_RADIUS_def GRAIN_INNER_RADIUS_def GRAIN_LENGTH_def
      power2_eq_square)

lemma GRAIN_DENSITY_value: "GRAIN_DENSITY * pi = 3019000 / 540"
  unfolding GRAIN_DENSITY_def grain_volume by (simp add: PROP_MASS_def)

lemma GRAIN_DENSITY_bounds: "1779 < GRAIN_DENSITY" "GRAIN_DENSITY < 1781"
proof -
  have e: "GRAIN_DENSITY = (3019000 / 540) / pi"
    using GRAIN_DENSITY_value by (simp add: field_simps)
  show "1779 < GRAIN_DENSITY"
    unfolding e using pi_lt_31418 pi_gt_zero by (simp add: pos_less_divide_eq)
  show "GRAIN_DENSITY < 1781"
    unfolding e using pi_gt_314 pi_gt_zero by (simp add: pos_divide_less_eq)
qed

lemma GRAIN_DENSITY_derived:
  "derive_grain_density PROP_MASS GRAIN_COUNT GRAIN_OUTER_RADIUS GRAIN_INNER_RADIUS GRAIN_LENGTH
     = Inr GRAIN_DENSITY"
  unfolding derive_grain_density_def Let_def grain_volume GRAIN_DENSITY_def
  by simp

lemma derive_at_constants:
  "derive_grain_density 3.019 3 0.04 0.01 0.12 = Inr GRAIN_DENSITY"
  using GRAIN_DENSITY_derived
  by (simp add: PROP_MASS_def GRAIN_COUNT_def GRAIN_OUTER_RADIUS_def GRAIN_INNER_RADIUS_def
      GRAIN_LENGTH_def)

text \<open>
  C3, as amended.  For propellant mass 3.019 kg, 3 grains, outer radius 0.04 m, inner
  radius 0.01 m and grain length 0.12 m the derivation raises nothing and yields the
  module's \<open>GRAIN_DENSITY\<close>, which lies within 1 % of 1779.6 kg per cubic metre.
\<close>

theorem grain_density_value:
  "derive_grain_density 3.019 3 0.04 0.01 0.12 = Inr GRAIN_DENSITY
     \<and> \<bar>GRAIN_DENSITY - 1779.6\<bar> \<le> 0.01 * 1779.6"
proof
  show "derive_grain_density 3.019 3 0.04 0.01 0.12 = Inr GRAIN_DENSITY"
    by (rule derive_at_constants)
  show "\<bar>GRAIN_DENSITY - 1779.6\<bar> \<le> 0.01 * 1779.6"
    using GRAIN_DENSITY_bounds unfolding abs_le_iff by simp
qed

text \<open>
  The same inputs do not give a density within 1 % of 1667.7 kg per cubic metre: the value is
  about 6.7 % above it.
\<close>

theorem grain_density_not_1667:
  "derive_grain_density 3.019 3 0.04 0.01 0.12 = Inr GRAIN_DENSITY
     \<and> \<not> \<bar>GRAIN_DENSITY - 1667.7\<bar> \<le> 0.01 * 1667.7"
proof
  show "derive_grain_density 3.019 3 0.04 0.01 0.12 = Inr GRAIN_DENSITY"
    by (rule derive_at_constants)
  show "\<not> \<bar>GRAIN_DENSITY - 1667.7\<bar> \<le> 0.01 * 1667.7"
    using GRAIN_DENSITY_bounds unfolding abs_le_iff by simp
qed

subsection \<open>The drag area of the main parachute\<close>

lemma MAIN_CD_S_value: "MAIN_CD_S = 2.82192984 * pi"
  by (simp add: MAIN_CD_S_def MAIN_CD_def MAIN_DIAMETER_def power2_eq_square)

lemma MAIN_CD_S_bounds: "8.8608 < MAIN_CD_S" "MAIN_CD_S < 8.866"
  unfolding MAIN_CD_S_value using pi_gt_314 pi_lt_31418 by simp_all

lemma drag_area_at_main: "derive_drag_area 1.5 2.7432 = MAIN_CD_S"
  by (simp add: derive_drag_area_def MAIN_CD_S_def MAIN_CD_def MAIN_DIAMETER_def)

text \<open>
  C6, as amended.  For drag coefficient 1.5 and diameter 2.7432 m the derived drag
  area is the module's \<open>MAIN_CD_S\<close>, which lies within 0.1 % of 8.865 square metres.
\<close>

theorem main_drag_area_value:
  "derive_drag_area 1.5 2.7432 = MAIN_CD_S \<and> \<bar>MAIN_CD_S - 8.865\<bar> \<le> 0.001 * 8.865"
proof
  show "derive_drag_area 1.5 2.7432 = MAIN_CD_S" by (rule drag_area_at_main)
  show "\<bar>MAIN_CD_S - 8.865\<bar> \<le> 0.001 * 8.865"
    using MAIN_CD_S_bounds unfolding abs_le_iff by simp
qed

text \<open>
  The area misses 8.875 square metres by a little more than 0.1 %, whether the tolerance is
  taken relative to 8.875 or to the area itself.
\<close>

theorem main_drag_area_not_8875:
  "derive_drag_area 1.5 2.7432 = MAIN_CD_S
     \<and> \<not> \<bar>MAIN_CD_S - 8.875\<bar> \<le> 0.001 * 8.875
     \<and> \<not> \<bar>MAIN_CD_S - 8.875\<bar> \<le> 0.001 * MAIN_CD_S"
proof (intro conjI)
  show "derive_drag_area 1.5 2.7432 = MAIN_CD_S" by (rule drag_area_at_main)
  show "\<not> \<bar>MAIN_CD_S - 8.875\<bar> \<le> 0.001 * 8.875"
    using MAIN_CD_S_bounds unfolding abs_le_iff by simp
  show "\<not> \<bar>MAIN_CD_S - 8.875\<bar> \<le> 0.001 * MAIN_CD_S"
    using MAIN_CD_S_bounds unfolding abs_le_iff by simp
qed

subsection \<open>Rounding to the float format\<close>


lemma round_half_even_nonneg: "0 \<le> r \<Longrightarrow> 0 \<le> round_half_even r"
  unfolding round_half_even_def Let_def by (auto simp: abs_le_iff)

lemma pow2_powr: "pow2 e = 2 powr of_int e"
proof (cases "0 \<le> e")
  case True
  then have "(2::real) powr of_int e = 2 powr real (nat e)" by simp
  also have "\<dots> = 2 ^ nat e" by (rule powr_realpow) simp
  finally show ?thesis using True by (simp add: pow2_def)
next
  case False
  then have "(2::real) powr of_int e = 2 powr (- real (nat (- e)))" by simp
  also have "\<dots> = 1 / 2 powr real (nat (- e))" by (rule powr_minus_divide)
  also have "2 powr real (nat (- e)) = (2::real) ^ nat (- e)" by (rule powr_realpow) simp
  finally show ?thesis using False by (simp add: pow2_def)
qed

lemma binade_ge: "- 1022 \<le> binade n a"
  by (induction n) simp_all



lemma binade_upper:
  assumes "a < 2 powr of_int (int n - 1021)"
  shows "a < 2 powr of_int (binade n a + 1)"
  using assms
proof (induction n)
  case 0
  then show ?case by simp
next
  case (Suc n)
  show ?case
  proof (cases "pow2 (int n - 1021) \<le> a")
    case True
    have "int (Suc n) - 1021 = int n - 1021 + 1" by simp
    then show ?thesis using True Suc.prems by (simp only: binade.simps if_True)
  next
    case False
    then have "a < 2 powr of_int (int n - 1021)" unfolding pow2_powr by simp
    then have "a < 2 powr of_int (binade n a + 1)" by (rule Suc.IH)
    then show ?thesis using False by simp
  qed
qed



lemma exponent_ge: "- 1022 \<le> exponent x"
  by (simp add: exponent_def binade_ge)


lemma exponent_upper:
  assumes "\<bar>x\<bar> < 2 ^ 1025"
  shows "\<bar>x\<bar> < 2 powr of_int (exponent x + 1)"
proof -
  have "(2::real) powr of_int (int 2046 - 1021) = 2 powr real (1025::nat)" by simp
  also have "\<dots> = 2 ^ 1025" by (rule powr_realpow) simp
  finally have "\<bar>x\<bar> < 2 powr of_int (int 2046 - 1021)" using assms by simp
  then show ?thesis unfolding exponent_def by (rule binade_upper)
qed




lemma nearest_zero [simp]: "nearest 0 = 0"
  by (simp add: nearest_def)













lemma in_range_weaken:
  assumes "in_range a b x" and "a \<le> a'" and "b \<le> b'"
  shows "in_range a' b' x"
proof -
  have "(2::real) ^ a \<le> 2 ^ a'" "(2::real) ^ b \<le> 2 ^ b'"
    using assms(2,3) by (simp_all add: power_increasing)
  then have "1 / (2::real) ^ a' \<le> 1 / 2 ^ a" by (simp add: frac_le)
  moreover have "1 / 2 ^ a \<le> \<bar>x\<bar>" "\<bar>x\<bar> \<le> 2 ^ b" using assms(1) by (simp_all add: in_range_def)
  ultimately have "1 / 2 ^ a' \<le> \<bar>x\<bar>" "\<bar>x\<bar> \<le> 2 ^ b'"
    using \<open>(2::real) ^ b \<le> 2 ^ b'\<close> by linarith+
  then show ?thesis unfolding in_range_def by (rule conjI)
qed

subsection \<open>The volume term for bounded operands\<close>








subsection \<open>Operands of moderate magnitude\<close>


















subsection \<open>The grain density as a function of its inputs\<close>







subsection \<open>The rocket assembly\<close>

lemma components_build_rocket:
  "components (build_rocket motor) =
     [Motor motor 0,
      Nose 0.4953 ''ogive'' ROCKET_LENGTH ''Fiberglass Nose'',
      TrapezoidalFins 3 FIN_ROOT_CHORD FIN_TIP_CHORD FIN_SPAN FIN_ROOT_LEADING_EDGE_FROM_TAIL 0
        ''Aluminum Fins'',
      Chute \<lparr>name = ''reefed'', cd_s = REEFED_CD_S, trigger = apogee, sampling_rate = 105,
             lag = 1.5, noise = (0, 8.3, 0.5)\<rparr>,
      Chute \<lparr>name = ''main'', cd_s = MAIN_CD_S, trigger = altitude 305, sampling_rate = 105,
             lag = 1.5, noise = (0, 8.3, 0.5)\<rparr>]"
  by (simp add: build_rocket_def Rocket_init_def add_motor_def add_nose_def
      add_trapezoidal_fins_def add_parachute_def attach_def)

text \<open>
  C9.  \<open>build_rocket\<close> attaches to the base airframe, in this order, the motor at
  position 0, the nose cone, the set of three fins with cant angle 0, the reefed
  parachute and the main parachute; each of the four kinds of attachment adds its
  component at the end of the list and leaves the earlier entries as they were.
\<close>

theorem build_rocket_attachment_order:
  "components (build_rocket motor) =
     [Motor motor 0,
      Nose 0.4953 ''ogive'' ROCKET_LENGTH ''Fiberglass Nose'',
      TrapezoidalFins 3 FIN_ROOT_CHORD FIN_TIP_CHORD FIN_SPAN FIN_ROOT_LEADING_EDGE_FROM_TAIL 0
        ''Aluminum Fins'',
      Chute \<lparr>name = ''reefed'', cd_s = REEFED_CD_S, trigger = apogee, sampling_rate = 105,
             lag = 1.5, noise = (0, 8.3, 0.5)\<rparr>,
      Chute \<lparr>name = ''main'', cd_s = MAIN_CD_S, trigger = altitude 305, sampling_rate = 105,
             lag = 1.5, noise = (0, 8.3, 0.5)\<rparr>]
   \<and> components (add_motor m pos rocket) = components rocket @ [Motor m pos]
   \<and> components (add_nose len knd pos nm rocket) = components rocket @ [Nose len knd pos nm]
   \<and> components (add_trapezoidal_fins k rc tc sp pos cant nm rocket)
       = components rocket @ [TrapezoidalFins k rc tc sp pos cant nm]
   \<and> components (add_parachute nm area trg rate lg nz rocket)
       = components rocket @ [Chute \<lparr>name = nm, cd_s = area, trigger = trg,
            sampling_rate = rate, lag = lg, noise = nz\<rparr>]"
  unfolding components_build_rocket
  by (simp add: add_motor_def add_nose_def add_trapezoidal_fins_def add_parachute_def attach_def)

text \<open>
  C5.  For every positive drag coefficient and diameter the derived drag area is
  \<open>cd * pi * (diameter / 2) ^ 2\<close>, a function of these two arguments alone; the drag
  areas of the two parachutes that \<open>build_rocket\<close> attaches are this function at the
  module's reefed and main coefficients and diameters.
\<close>

theorem drag_area_formula:
  assumes "0 < cd" and "0 < diameter"
  shows "derive_drag_area cd diameter = cd * pi * (diameter / 2) ^ 2
    \<and> map (\<lambda>p. (name p, cd_s p)) (parachutes_of (components (build_rocket motor)))
        = [(''reefed'', derive_drag_area REEFED_CD REEFED_DIAMETER),
           (''main'', derive_drag_area MAIN_CD MAIN_DIAMETER)]"
  unfolding components_build_rocket
  by (simp add: derive_drag_area_def REEFED_CD_S_def MAIN_CD_S_def)

theorem drag_area_formula_witness:
  "derive_drag_area 1.2 1.2192 = 1.2 * pi * (1.2192 / 2) ^ 2
    \<and> map (\<lambda>p. (name p, cd_s p)) (parachutes_of (components (build_rocket build_motor)))
        = [(''reefed'', derive_drag_area REEFED_CD REEFED_DIAMETER),
           (''main'', derive_drag_area MAIN_CD MAIN_DIAMETER)]"
  using drag_area_formula [of "1.2" "1.2192" build_motor] by simp

subsection \<open>The motor\<close>

text \<open>
  C8.  The thrust curve that \<open>build_motor\<close> hands over is not empty, its times
  increase strictly from 0, no thrust is negative, the last thrust is 0, and the burn
  time is not below the last time.
\<close>

theorem thrust_curve_well_formed:
  "thrust_source build_motor \<noteq> []
   \<and> sorted_wrt (<) (map fst (thrust_source build_motor))
   \<and> fst (hd (thrust_source build_motor)) = 0
   \<and> list_all (\<lambda>sample. 0 \<le> snd sample) (thrust_source build_motor)
   \<and> snd (last (thrust_source build_motor)) = 0
   \<and> fst (last (thrust_source build_motor)) \<le> burn_time build_motor"
proof -
  have src: "thrust_source build_motor = THRUST_CURVE"
    and burn: "burn_time build_motor = BURN_TIME"
    by (simp_all add: build_motor_def)
  have "THRUST_CURVE \<noteq> []"
    by (simp add: THRUST_CURVE_def)
  moreover have "sorted_wrt (<) (map fst THRUST_CURVE)"
    by (simp add: THRUST_CURVE_def)
  moreover have "fst (hd THRUST_CURVE) = 0"
    by (simp add: THRUST_CURVE_def)
  moreover have "list_all (\<lambda>sample. 0 \<le> snd sample) THRUST_CURVE"
    by (simp add: THRUST_CURVE_def)
  moreover have "last THRUST_CURVE = (4.53, 0)"
    by (simp add: THRUST_CURVE_def)
  ultimately show ?thesis
    unfolding src burn by (simp add: BURN_TIME_def)
qed

subsection \<open>The environment\<close>

lemma forecast_attempted_once:
  "forecast_attempts (snd (build_environment prov w)) = Suc (forecast_attempts w)"
  by (simp add: build_environment_def set_atmospheric_model_def print_def Let_def
      split: option.split)

lemma build_environment_failure:
  assumes "prov (forecast_attempts w) = Some exc" and "isinstance_Exception exc"
  shows "build_environment prov w =
     (Inr \<lparr>latitude = LAUNCH_LATITUDE, longitude = LAUNCH_LONGITUDE,
           elevation = LAUNCH_ELEVATION_M, date = Some LAUNCH_DATETIME_UTC,
           atmospheric_model_type = Some standard_atmosphere\<rparr>,
      w\<lparr>forecast_attempts := Suc (forecast_attempts w),
        stdout := stdout w @ [warning exc]\<rparr>)"
  using assms
  by (simp add: build_environment_def set_atmospheric_model_def print_def Let_def
      Environment_init_def set_date_def)

lemma build_environment_success:
  assumes "prov (forecast_attempts w) = None"
  shows "build_environment prov w =
     (Inr \<lparr>latitude = LAUNCH_LATITUDE, longitude = LAUNCH_LONGITUDE,
           elevation = LAUNCH_ELEVATION_M, date = Some LAUNCH_DATETIME_UTC,
           atmospheric_model_type = Some (Forecast ''GFS'')\<rparr>,
      w\<lparr>forecast_attempts := Suc (forecast_attempts w)\<rparr>)"
  using assms
  by (simp add: build_environment_def set_atmospheric_model_def print_def Let_def
      Environment_init_def set_date_def)

lemma build_environment_propagates:
  assumes "prov (forecast_attempts w) = Some exc" and "\<not> isinstance_Exception exc"
  shows "build_environment prov w =
     (Inl exc, w\<lparr>forecast_attempts := Suc (forecast_attempts w)\<rparr>)"
  using assms
  by (simp add: build_environment_def set_atmospheric_model_def print_def Let_def
      Environment_init_def set_date_def)

text \<open>
  C2, as amended.  Every run of \<open>build_environment\<close> starts exactly one forecast
  download.  When that download raises an instance of \<open>Exception\<close>, the function
  writes one warning line, sets the standard atmosphere without a second download,
  and returns the environment without raising.
\<close>

theorem build_environment_fallback:
  "forecast_attempts (snd (build_environment prov w)) = Suc (forecast_attempts w)
   \<and> (prov (forecast_attempts w) = Some exc \<and> isinstance_Exception exc \<longrightarrow>
        build_environment prov w =
          (Inr \<lparr>latitude = LAUNCH_LATITUDE, longitude = LAUNCH_LONGITUDE,
                elevation = LAUNCH_ELEVATION_M, date = Some LAUNCH_DATETIME_UTC,
                atmospheric_model_type = Some standard_atmosphere\<rparr>,
           w\<lparr>forecast_attempts := Suc (forecast_attempts w),
             stdout := stdout w @ [warning exc]\<rparr>))"
  using forecast_attempted_once build_environment_failure by blast

theorem build_environment_fallback_witness:
  "build_environment (always_fails (Exception ''timed out''))
       \<lparr>forecast_attempts = 0, stdout = []\<rparr> =
     (Inr \<lparr>latitude = 35.5, longitude = - 102.3, elevation = 971.1,
           date = Some (2025, 10, 12, 18),
           atmospheric_model_type = Some standard_atmosphere\<rparr>,
      \<lparr>forecast_attempts = 1,
       stdout = [''Warning: could not download forecast data (timed out). Using ISA instead.'']\<rparr>)"
  using build_environment_fallback [of "always_fails (Exception ''timed out'')" "\<lparr>forecast_attempts = 0, stdout = []\<rparr>"
      "Exception ''timed out''"]
  by (simp add: always_fails_def warning_def LAUNCH_LATITUDE_def LAUNCH_LONGITUDE_def
      LAUNCH_ELEVATION_M_def LAUNCH_DATETIME_UTC_def)

text \<open>
  An exception outside \<open>Exception\<close> is not caught: a \<open>KeyboardInterrupt\<close> during the
  download leaves \<open>build_environment\<close>, with no warning written and no fallback.
\<close>

theorem build_environment_keyboard_interrupt:
  "build_environment (always_fails KeyboardInterrupt) \<lparr>forecast_attempts = 0, stdout = []\<rparr> =
     (Inl KeyboardInterrupt, \<lparr>forecast_attempts = 1, stdout = []\<rparr>)"
  by (simp add: build_environment_propagates always_fails_def)

text \<open>
  C10.  Whether the forecast arrives or fails with an instance of \<open>Exception\<close>, the
  environment returned has latitude 35.5, longitude -102.3, elevation 971.1 m and
  date 2025-10-12 18:00 UTC; the two environments differ in the atmospheric mode only.
\<close>

theorem build_environment_frame:
  "(prov (forecast_attempts w) = None \<longrightarrow>
      fst (build_environment prov w) =
        Inr \<lparr>latitude = 35.5, longitude = - 102.3, elevation = 971.1,
             date = Some (2025, 10, 12, 18),
             atmospheric_model_type = Some (Forecast ''GFS'')\<rparr>)
   \<and> (prov (forecast_attempts w) = Some exc \<and> isinstance_Exception exc \<longrightarrow>
      fst (build_environment prov w) =
        Inr \<lparr>latitude = 35.5, longitude = - 102.3, elevation = 971.1,
             date = Some (2025, 10, 12, 18),
             atmospheric_model_type = Some standard_atmosphere\<rparr>)"
  by (simp add: build_environment_success build_environment_failure LAUNCH_LATITUDE_def
      LAUNCH_LONGITUDE_def LAUNCH_ELEVATION_M_def LAUNCH_DATETIME_UTC_def)

theorem build_environment_frame_witness:
  "fst (build_environment always_succeeds \<lparr>forecast_attempts = 0, stdout = []\<rparr>) =
        Inr \<lparr>latitude = 35.5, longitude = - 102.3, elevation = 971.1,
             date = Some (2025, 10, 12, 18),
             atmospheric_model_type = Some (Forecast ''GFS'')\<rparr>
   \<and> fst (build_environment (always_fails (Exception ''no data''))
           \<lparr>forecast_attempts = 0, stdout = []\<rparr>) =
        Inr \<lparr>latitude = 35.5, longitude = - 102.3, elevation = 971.1,
             date = Some (2025, 10, 12, 18),
             atmospheric_model_type = Some standard_atmosphere\<rparr>"
  using build_environment_frame [of always_succeeds "\<lparr>forecast_attempts = 0, stdout = []\<rparr>"]
    build_environment_frame [of "always_fails (Exception ''no data'')" "\<lparr>forecast_attempts = 0, stdout = []\<rparr>"
      "Exception ''no data''"]
  by (simp add: always_fails_def always_succeeds_def)


end
